theory Spec2Isabelle
  imports Complex_Main "HOL-Library.Sublist"
begin

section \<open>Policy Intelligence API: a shallow embedding of the retrieval and generation services\<close>

text \<open>
  The repository is a FastAPI application with three lazily initialised singleton services
  (\<^verbatim>\<open>app/services/embedding_service.py\<close>, \<^verbatim>\<open>app/services/vector_store.py\<close>,
  \<^verbatim>\<open>app/services/generation_service.py\<close>) and one request handler
  (\<^verbatim>\<open>search_policies\<close> in \<^verbatim>\<open>app/main.py\<close>).

  Modelling decisions, applied throughout:
  \<^item> Python \<^verbatim>\<open>float\<close> values (distances, scores, thresholds, embedding components) are
    modelled as \<^typ>\<open>real\<close>; \<^verbatim>\<open>str\<close> as \<^typ>\<open>string\<close>.
  \<^item> An exception is a value of \<open>py_error\<close>; every operation returns its result together
    with the service state, so that what a call did before raising stays visible.
  \<^item> The external libraries (SentenceTransformer, ChromaDB, transformers) are parameters,
    collected in the record \<open>backends\<close>; each call made to them is appended to the
    \<open>trace\<close> of the state, next to the log calls of the source (message only, the
    structured keyword fields are left out).
  \<^item> The metrics decorators of \<^verbatim>\<open>app/metrics.py\<close> pass results and exceptions through
    unchanged and are not modelled; neither are the clock readings of the handler.
\<close>

subsection \<open>Errors, events, state\<close>

datatype py_error =
    IndexError
  | ValidationError
  | BackendError string

datatype event =
    LogInfo string
  | LogDebug string
  | LogError string
  | LoadEmbedder
  | ModelEncode "string list"
  | OpenClient
  | GetCollection
  | CreateCollection
  | CollectionQuery "real list" int
  | LoadLLM
  | LLMGenerate string

text \<open>The \<^verbatim>\<open>_initialized\<close> flags of the three global instances, and what has happened so far.\<close>

record services =
  emb_initialized :: bool
  vs_initialized :: bool
  gen_initialized :: bool
  trace :: "event list"

definition emit :: "event \<Rightarrow> services \<Rightarrow> services" where
  "emit e s = s\<lparr>trace := trace s @ [e]\<rparr>"

text \<open>
  The raw answer of \<^verbatim>\<open>collection.query\<close>: a dictionary of parallel lists, one inner list
  per query embedding.
\<close>

record query_result =
  ids :: "string list list"
  distances :: "real list list"
  documents :: "string list list"
  metadatas :: "(string \<rightharpoonup> string) list list"

text \<open>
  The external collaborators. A loader is \<open>None\<close> when it succeeds and \<open>Some e\<close> when it
  raises \<open>e\<close>; \<open>llm_generate\<close> stands for tokenising the prompt, \<^verbatim>\<open>model.generate\<close> and
  decoding, and returns the decoded \<^verbatim>\<open>full_response\<close>.
\<close>

record backends =
  load_embedder :: "py_error option"
  model_encode :: "string list \<Rightarrow> py_error + real list list"
  open_client :: "py_error option"
  get_collection :: "py_error option"
  create_collection :: "py_error option"
  collection_query :: "real list \<Rightarrow> int \<Rightarrow> py_error + query_result"
  load_llm :: "py_error option"
  llm_generate :: "string \<Rightarrow> py_error + string"

text \<open>
  A clause dictionary with the five keys the source writes (\<^verbatim>\<open>clause_dict\<close> in
  \<^verbatim>\<open>search\<close>, \<^verbatim>\<open>PolicyClause\<close> in \<^verbatim>\<open>app/schemas.py\<close>).
\<close>

record policy_clause =
  clause_id :: string
  clause_text :: string
  policy_type :: "string option"
  section_ :: "string option"
  relevance_score :: real

subsection \<open>Python string operations used by the generation service\<close>

text \<open>
  \<^verbatim>\<open>sep.join(xs)\<close>, \<^verbatim>\<open>s.split(sep)\<close> (a left-to-right scan for non-overlapping occurrences;
  the accumulator is the piece read so far) and \<^verbatim>\<open>s.strip()\<close>. Whitespace is what
  \<^verbatim>\<open>str.isspace\<close> accepts below code point 128.
\<close>

fun py_join :: "string \<Rightarrow> string list \<Rightarrow> string" where
  "py_join sep [] = []"
| "py_join sep [x] = x"
| "py_join sep (x # y # ys) = x @ sep @ py_join sep (y # ys)"

fun py_split :: "string \<Rightarrow> string \<Rightarrow> string \<Rightarrow> string list" where
  "py_split sep acc [] = [acc]"
| "py_split sep acc (c # cs) =
     (if sep \<noteq> [] \<and> prefix sep (c # cs)
      then acc # py_split sep [] (drop (length sep - 1) cs)
      else py_split sep (acc @ [c]) cs)"

definition py_isspace :: "char \<Rightarrow> bool" where
  "py_isspace c \<longleftrightarrow>
     c \<in> set [CHR 0x09, CHR 0x0A, CHR 0x0B, CHR 0x0C, CHR 0x0D,
              CHR 0x1C, CHR 0x1D, CHR 0x1E, CHR 0x1F, CHR 0x20]"

definition py_strip :: "string \<Rightarrow> string" where
  "py_strip s = rev (dropWhile py_isspace (rev (dropWhile py_isspace s)))"

text \<open>No proper prefix of the separator is also a suffix of it.\<close>

definition unbordered :: "string \<Rightarrow> bool" where
  "unbordered sep \<longleftrightarrow>
     list_all (\<lambda>k. take k sep \<noteq> drop (length sep - k) sep) [1..<length sep]"

subsection \<open>\<^verbatim>\<open>GenerationService\<close>\<close>

text \<open>
  \<^verbatim>\<open>initialize\<close> suspends once, at \<^verbatim>\<open>await loop.run_in_executor(None, load_model)\<close>.
  \<open>gen_init_begin\<close> is the part before the suspension (reached only when the flag is
  unset), \<open>gen_init_resume\<close> the part after it.
\<close>

definition gen_init_begin :: "services \<Rightarrow> services" where
  "gen_init_begin s = emit LoadLLM (emit (LogInfo ''Initializing LLM for generation'') s)"

definition gen_init_resume :: "backends \<Rightarrow> services \<Rightarrow> (py_error + unit) \<times> services" where
  "gen_init_resume B s =
     (case load_llm B of
        Some e \<Rightarrow> (Inl e, s)
      | None \<Rightarrow> (Inr (), emit (LogInfo ''LLM initialized successfully'')
                              (s\<lparr>gen_initialized := True\<rparr>)))"

definition GenerationService_initialize ::
  "backends \<Rightarrow> services \<Rightarrow> (py_error + unit) \<times> services" where
  "GenerationService_initialize B s =
     (if gen_initialized s then (Inr (), s) else gen_init_resume B (gen_init_begin s))"

definition no_clauses_message :: string where
  "no_clauses_message = ''No relevant policy clauses were found to analyze this claim.''"

definition answer_marker :: string where
  "answer_marker = ''ANALYSIS:''"

definition instruction :: string where
  "instruction = ''State if it is likely covered and cite the clause ID.''"

definition bullet :: "policy_clause \<Rightarrow> string" where
  "bullet c = ''- ['' @ clause_id c @ ''] '' @ clause_text c"

definition build_prompt :: "string \<Rightarrow> policy_clause list \<Rightarrow> string" where
  "build_prompt query retrieved_clauses =
     (let context = py_join ''\<newline>'' (map bullet retrieved_clauses)
      in ''Instruct: You are an expert Insurance Policy Analyst. ''
         @ ''Based on the following policy clauses, analyze the user'' @ [CHR 0x27]
         @ ''s claim description. ''
         @ ''State if it is likely covered and cite the clause ID.\<newline>\<newline>''
         @ ''POLICY CLAUSES:\<newline>'' @ context @ ''\<newline>\<newline>''
         @ ''USER CLAIM: '' @ query @ ''\<newline>\<newline>''
         @ ''ANALYSIS:'')"

definition extract_analysis :: "string \<Rightarrow> string" where
  "extract_analysis full_response = py_strip (last (py_split ''ANALYSIS:'' [] full_response))"

definition generate_analysis ::
  "backends \<Rightarrow> services \<Rightarrow> string \<Rightarrow> policy_clause list \<Rightarrow> (py_error + string) \<times> services" where
  "generate_analysis B s query retrieved_clauses =
     (case (if \<not> gen_initialized s then GenerationService_initialize B s else (Inr (), s)) of
        (Inl e, s1) \<Rightarrow> (Inl e, s1)
      | (Inr _, s1) \<Rightarrow>
          if retrieved_clauses = [] then (Inr no_clauses_message, s1)
          else
            let prompt = build_prompt query retrieved_clauses;
                s2 = emit (LLMGenerate prompt) (emit (LogInfo ''Generating analysis for claim'') s1)
            in case llm_generate B prompt of
                 Inl e \<Rightarrow> (Inl e, s2)
               | Inr full_response \<Rightarrow> (Inr (extract_analysis full_response), s2))"

subsection \<open>\<^verbatim>\<open>EmbeddingService\<close>\<close>

text \<open>
  \<^verbatim>\<open>initialize\<close> suspends once, at \<^verbatim>\<open>await loop.run_in_executor(...)\<close>, while the
  executor constructs the SentenceTransformer.
\<close>

definition emb_init_begin :: "services \<Rightarrow> services" where
  "emb_init_begin s = emit LoadEmbedder (emit (LogInfo ''Initializing embedding model'') s)"

definition emb_init_resume :: "backends \<Rightarrow> services \<Rightarrow> (py_error + unit) \<times> services" where
  "emb_init_resume B s =
     (case load_embedder B of
        Some e \<Rightarrow> (Inl e, s)
      | None \<Rightarrow> (Inr (), emit (LogInfo ''Embedding model initialized successfully'')
                              (s\<lparr>emb_initialized := True\<rparr>)))"

definition EmbeddingService_initialize ::
  "backends \<Rightarrow> services \<Rightarrow> (py_error + unit) \<times> services" where
  "EmbeddingService_initialize B s =
     (if emb_initialized s then (Inr (), s) else emb_init_resume B (emb_init_begin s))"

definition encode ::
  "backends \<Rightarrow> services \<Rightarrow> string list \<Rightarrow> (py_error + real list list) \<times> services" where
  "encode B s texts =
     (case (if \<not> emb_initialized s then EmbeddingService_initialize B s else (Inr (), s)) of
        (Inl e, s1) \<Rightarrow> (Inl e, s1)
      | (Inr _, s1) \<Rightarrow>
          if texts = [] then (Inr [], s1)
          else
            let s2 = emit (ModelEncode texts) (emit (LogDebug ''Encoding texts'') s1)
            in case model_encode B texts of
                 Inl e \<Rightarrow> (Inl e, s2)
               | Inr embeddings \<Rightarrow>
                   (Inr embeddings, emit (LogDebug ''Texts encoded successfully'') s2))"

definition encode_single ::
  "backends \<Rightarrow> services \<Rightarrow> string \<Rightarrow> (py_error + real list) \<times> services" where
  "encode_single B s text =
     (case encode B s [text] of
        (Inl e, s1) \<Rightarrow> (Inl e, s1)
      | (Inr embeddings, s1) \<Rightarrow> (Inr (if embeddings \<noteq> [] then hd embeddings else []), s1))"

subsection \<open>\<^verbatim>\<open>VectorStoreService\<close>\<close>

text \<open>
  \<^verbatim>\<open>initialize\<close> contains no \<^verbatim>\<open>await\<close>: it runs from the flag test to the flag
  assignment without suspending. A failing \<^verbatim>\<open>get_collection\<close> is caught and answered by
  \<^verbatim>\<open>create_collection\<close>.
\<close>

definition vs_init_finish :: "services \<Rightarrow> services" where
  "vs_init_finish s =
     emit (LogInfo ''Vector store initialized successfully'') (s\<lparr>vs_initialized := True\<rparr>)"

definition VectorStoreService_initialize ::
  "backends \<Rightarrow> services \<Rightarrow> (py_error + unit) \<times> services" where
  "VectorStoreService_initialize B s =
     (if vs_initialized s then (Inr (), s)
      else
        let s1 = emit OpenClient (emit (LogInfo ''Initializing ChromaDB'') s)
        in case open_client B of
             Some e \<Rightarrow> (Inl e, s1)
           | None \<Rightarrow>
               let s2 = emit GetCollection s1
               in (case get_collection B of
                     None \<Rightarrow>
                       (Inr (), vs_init_finish
                                  (emit (LogInfo ''Using existing ChromaDB collection'') s2))
                   | Some _ \<Rightarrow>
                       let s3 = emit CreateCollection s2
                       in (case create_collection B of
                             Some e \<Rightarrow> (Inl e, s3)
                           | None \<Rightarrow>
                               (Inr (), vs_init_finish
                                  (emit (LogInfo
                                     ''Created new ChromaDB collection with cosine similarity'')
                                     s3)))))"

text \<open>\<^verbatim>\<open>results[key][0][i]\<close>; \<open>None\<close> where Python raises \<^verbatim>\<open>IndexError\<close>.\<close>

definition index2 :: "'a list list \<Rightarrow> nat \<Rightarrow> 'a option" where
  "index2 xss i =
     (case xss of
        [] \<Rightarrow> None
      | row # _ \<Rightarrow> if i < length row then Some (row ! i) else None)"

text \<open>
  The body of \<^verbatim>\<open>for i in range(len(results["ids"][0]))\<close>, over the indices still to be
  visited; \<open>formatted\<close> is \<^verbatim>\<open>formatted_results\<close>.
\<close>

fun format_loop ::
  "query_result \<Rightarrow> real \<Rightarrow> nat list \<Rightarrow> (policy_clause \<times> real) list \<Rightarrow> services
     \<Rightarrow> (py_error + (policy_clause \<times> real) list) \<times> services" where
  "format_loop results min_score [] formatted s = (Inr formatted, s)"
| "format_loop results min_score (i # rest) formatted s =
     (case index2 (distances results) i of
        None \<Rightarrow> (Inl IndexError, s)
      | Some distance \<Rightarrow>
          let score = 1 - distance;
              s1 = emit (LogDebug ''Result found'') s
          in if score \<ge> min_score then
               (case (index2 (ids results) i, index2 (documents results) i,
                      index2 (metadatas results) i) of
                  (Some cid, Some doc, Some meta) \<Rightarrow>
                    format_loop results min_score rest
                      (formatted @
                         [(\<lparr>clause_id = cid, clause_text = doc,
                            policy_type = meta ''policy_type'', section_ = meta ''section'',
                            relevance_score = score\<rparr>, score)])
                      s1
                | _ \<Rightarrow> (Inl IndexError, s1))
             else format_loop results min_score rest formatted s1)"

text \<open>\<^verbatim>\<open>results["ids"] and len(results["ids"][0]) > 0\<close>\<close>

definition has_hits :: "query_result \<Rightarrow> bool" where
  "has_hits results \<longleftrightarrow> ids results \<noteq> [] \<and> length (hd (ids results)) > 0"

definition search ::
  "backends \<Rightarrow> services \<Rightarrow> string \<Rightarrow> int \<Rightarrow> real
     \<Rightarrow> (py_error + (policy_clause \<times> real) list) \<times> services" where
  "search B s query_text max_results min_score =
     (case (if \<not> vs_initialized s then VectorStoreService_initialize B s else (Inr (), s)) of
        (Inl e, s1) \<Rightarrow> (Inl e, s1)
      | (Inr _, s1) \<Rightarrow>
          (case encode_single B (emit (LogInfo ''Searching vector store'') s1) query_text of
             (Inl e, s2) \<Rightarrow> (Inl e, s2)
           | (Inr query_embedding, s2) \<Rightarrow>
               let s3 = emit (CollectionQuery query_embedding max_results) s2
               in (case collection_query B query_embedding max_results of
                     Inl e \<Rightarrow> (Inl e, s3)
                   | Inr results \<Rightarrow>
                       (case (if has_hits results
                              then format_loop results min_score
                                     [0..<length (hd (ids results))] [] s3
                              else (Inr [], s3)) of
                          (Inl e, s4) \<Rightarrow> (Inl e, s4)
                        | (Inr formatted_results, s4) \<Rightarrow>
                            if formatted_results = [] \<and> has_hits results then
                              (case index2 (distances results) 0 of
                                 None \<Rightarrow> (Inl IndexError, s4)
                               | Some _ \<Rightarrow>
                                   (Inr formatted_results,
                                    emit (LogInfo ''Search completed'')
                                      (emit (LogInfo ''All results filtered out by min_score'')
                                         s4)))
                            else (Inr formatted_results,
                                  emit (LogInfo ''Search completed'') s4)))))"

subsection \<open>The request handler \<^verbatim>\<open>search_policies\<close>\<close>

record policy_search_request =
  claim_description :: string
  max_results :: "int option"
  min_score :: "real option"
  is_enable_rag :: "bool option"

record policy_search_response =
  query :: string
  results :: "policy_clause list"
  analysis :: "string option"
  total_results :: nat

text \<open>
  \<^verbatim>\<open>HTTPException(status_code, detail)\<close>; the detail is
  \<^verbatim>\<open>f"Internal server error: {str(e)}"\<close>, kept here as the exception \<open>e\<close> itself.
\<close>

datatype http_exception = HTTPException nat py_error

text \<open>Default of \<^verbatim>\<open>Settings.max_results\<close> in \<^verbatim>\<open>app/config.py\<close>.\<close>

definition settings_max_results :: int where
  "settings_max_results = 10"

text \<open>
  \<^verbatim>\<open>x or d\<close> for an optional number: \<^verbatim>\<open>None\<close> and zero are both false.
\<close>

definition py_or :: "'a::zero option \<Rightarrow> 'a \<Rightarrow> 'a" where
  "py_or x d = (case x of None \<Rightarrow> d | Some n \<Rightarrow> if n \<noteq> 0 then n else d)"

text \<open>
  \<^verbatim>\<open>PolicyClause(**clause_dict)\<close>: the field constraint \<^verbatim>\<open>ge=0.0, le=1.0\<close> on
  \<^verbatim>\<open>relevance_score\<close>; the list comprehension stops at the first failure.
\<close>

definition PolicyClause :: "policy_clause \<Rightarrow> py_error + policy_clause" where
  "PolicyClause c =
     (if 0 \<le> relevance_score c \<and> relevance_score c \<le> 1 then Inr c else Inl ValidationError)"

fun validate_all :: "(policy_clause \<times> real) list \<Rightarrow> py_error + policy_clause list" where
  "validate_all [] = Inr []"
| "validate_all ((clause_dict, _) # rest) =
     (case PolicyClause clause_dict of
        Inl e \<Rightarrow> Inl e
      | Inr c \<Rightarrow> (case validate_all rest of Inl e \<Rightarrow> Inl e | Inr cs \<Rightarrow> Inr (c # cs)))"

definition failed :: "py_error \<Rightarrow> services \<Rightarrow> (http_exception + policy_search_response) \<times> services" where
  "failed e s = (Inl (HTTPException 500 e), emit (LogError ''Policy search failed'') s)"

definition search_policies ::
  "backends \<Rightarrow> services \<Rightarrow> policy_search_request
     \<Rightarrow> (http_exception + policy_search_response) \<times> services" where
  "search_policies B s request =
     (case search B (emit (LogInfo ''Policy search request received'') s)
             (claim_description request)
             (py_or (max_results request) settings_max_results)
             (py_or (min_score request) 0) of
        (Inl e, s1) \<Rightarrow> failed e s1
      | (Inr found, s1) \<Rightarrow>
          (case validate_all found of
             Inl e \<Rightarrow> failed e s1
           | Inr policy_clauses \<Rightarrow>
               if is_enable_rag request = Some True \<and> policy_clauses \<noteq> [] then
                 (case generate_analysis B
                         (emit (LogInfo ''RAG analysis enabled, generating AI response'') s1)
                         (claim_description request) policy_clauses of
                    (Inl e, s2) \<Rightarrow> failed e s2
                  | (Inr text, s2) \<Rightarrow>
                      (Inr \<lparr>query = claim_description request, results = policy_clauses,
                            analysis = Some text, total_results = length policy_clauses\<rparr>,
                       emit (LogInfo ''Policy search and RAG analysis completed'') s2))
               else
                 (Inr \<lparr>query = claim_description request, results = policy_clauses,
                       analysis = None, total_results = length policy_clauses\<rparr>,
                  emit (LogInfo ''Policy search and RAG analysis completed'')
                    (emit (LogInfo ''RAG analysis disabled, skipping generation step'') s1))))"

subsection \<open>Callers of \<^verbatim>\<open>initialize\<close> interleaved on the event loop\<close>











subsection \<open>Notions used to state the properties\<close>

text \<open>\<open>x\<close> occurs in \<open>p\<close> and \<open>y\<close> occurs somewhere after that occurrence.\<close>

definition followed_by :: "string \<Rightarrow> string \<Rightarrow> string \<Rightarrow> bool" where
  "followed_by x y p \<longleftrightarrow> (\<exists>a b c. p = a @ x @ b @ y @ c)"

text \<open>The calls made to the generation model and to the embedding model so far.\<close>

fun is_generate :: "event \<Rightarrow> bool" where
  "is_generate (LLMGenerate _) = True"
| "is_generate _ = False"

definition generate_calls :: "services \<Rightarrow> event list" where
  "generate_calls s = filter is_generate (trace s)"

fun is_encode :: "event \<Rightarrow> bool" where
  "is_encode (ModelEncode _) = True"
| "is_encode _ = False"

definition encode_calls :: "services \<Rightarrow> event list" where
  "encode_calls s = filter is_encode (trace s)"

text \<open>
  Both stores can be brought up: each is initialised already or its loaders succeed
  (a missing collection may be created).
\<close>

definition stores_ready :: "backends \<Rightarrow> services \<Rightarrow> bool" where
  "stores_ready B s \<longleftrightarrow>
     (vs_initialized s \<or>
        (open_client B = None \<and> (get_collection B = None \<or> create_collection B = None)))
     \<and> (emb_initialized s \<or> load_embedder B = None)"

text \<open>
  The embedding model encodes the query and the collection answers the resulting vector
  with \<open>answer\<close>.
\<close>

definition index_answers :: "backends \<Rightarrow> string \<Rightarrow> int \<Rightarrow> query_result \<Rightarrow> bool" where
  "index_answers B query_text k answer \<longleftrightarrow>
     (case model_encode B [query_text] of
        Inl _ \<Rightarrow> False
      | Inr embeddings \<Rightarrow>
          collection_query B (if embeddings \<noteq> [] then hd embeddings else []) k = Inr answer)"

text \<open>
  The four parallel lists of an answer have a first row each, of one length, whenever
  there are hits (the shape ChromaDB returns).
\<close>

definition aligned :: "query_result \<Rightarrow> bool" where
  "aligned r \<longleftrightarrow>
     (has_hits r \<longrightarrow>
        distances r \<noteq> [] \<and> documents r \<noteq> [] \<and> metadatas r \<noteq> [] \<and>
        length (hd (distances r)) = length (hd (ids r)) \<and>
        length (hd (documents r)) = length (hd (ids r)) \<and>
        length (hd (metadatas r)) = length (hd (ids r)))"

text \<open>
  The raw results of the index query as tuples (id, document, metadata, distance), in the
  order of the answer, and the scored clause made of one raw result.
\<close>

definition raw_results :: "query_result \<Rightarrow> (string \<times> string \<times> (string \<rightharpoonup> string) \<times> real) list" where
  "raw_results r =
     (if has_hits r
      then zip (hd (ids r)) (zip (hd (documents r)) (zip (hd (metadatas r)) (hd (distances r))))
      else [])"

definition raw_distance :: "string \<times> string \<times> (string \<rightharpoonup> string) \<times> real \<Rightarrow> real" where
  "raw_distance x = snd (snd (snd x))"

definition to_scored ::
  "string \<times> string \<times> (string \<rightharpoonup> string) \<times> real \<Rightarrow> policy_clause \<times> real" where
  "to_scored x =
     (case x of (cid, doc, meta, distance) \<Rightarrow>
        (\<lparr>clause_id = cid, clause_text = doc,
          policy_type = meta ''policy_type'', section_ = meta ''section'',
          relevance_score = 1 - distance\<rparr>, 1 - distance))"

subsection \<open>Concrete states, backends and inputs\<close>

definition warm :: services where
  "warm = \<lparr>emb_initialized = True, vs_initialized = True, gen_initialized = True, trace = []\<rparr>"

definition cold :: services where
  "cold = \<lparr>emb_initialized = False, vs_initialized = False, gen_initialized = False,
            trace = []\<rparr>"

text \<open>
  Backends whose model loaders have the outcome \<open>load\<close>, whose collection answers every
  query with \<open>answer\<close> and whose generation call has the outcome \<open>generated\<close>.
\<close>

definition stub_backends ::
  "py_error option \<Rightarrow> query_result \<Rightarrow> py_error + string \<Rightarrow> backends" where
  "stub_backends load answer generated =
     \<lparr>load_embedder = load, model_encode = (\<lambda>texts. Inr (map (\<lambda>_. [1, 0]) texts)),
      open_client = None, get_collection = None, create_collection = None,
      collection_query = (\<lambda>_ _. Inr answer),
      load_llm = load, llm_generate = (\<lambda>_. generated)\<rparr>"

definition no_hits :: query_result where
  "no_hits = \<lparr>ids = [[]], distances = [[]], documents = [[]], metadatas = [[]]\<rparr>"

text \<open>The scenario of the specification: clauses A, B, C at scores 0.9, 0.4, 0.1.\<close>

definition three_hits :: query_result where
  "three_hits =
     \<lparr>ids = [[''A'', ''B'', ''C'']],
      distances = [[1/10, 6/10, 9/10]],
      documents = [[''Collision damage is covered.'', ''Wear and tear is excluded.'',
                    ''Notify the insurer within 30 days.'']],
      metadatas = [[[''policy_type'' \<mapsto> ''Auto Insurance'', ''section'' \<mapsto> ''Coverage''],
                    [''section'' \<mapsto> ''Exclusions''], Map.empty]]\<rparr>"

definition clause_001 :: policy_clause where
  "clause_001 = \<lparr>clause_id = ''CLAUSE_001'', clause_text = ''Collision damage is covered.'',
     policy_type = Some ''Auto Insurance'', section_ = Some ''Coverage'', relevance_score = 9/10\<rparr>"

definition hail_claim :: string where
  "hail_claim = ''Windshield cracked by hail''"

definition rag_request :: policy_search_request where
  "rag_request = \<lparr>claim_description = hail_claim, max_results = Some 3, min_score = Some (1/2),
                   is_enable_rag = Some True\<rparr>"

text \<open>An embedding model that answers every batch with no embeddings.\<close>

definition silent_model :: backends where
  "silent_model = (stub_backends None no_hits (Inr ''''))\<lparr>model_encode := (\<lambda>_. Inr [])\<rparr>"

definition out_of_memory :: py_error where
  "out_of_memory = BackendError ''CUDA out of memory''"

section \<open>Properties\<close>

subsection \<open>Splitting at the answer marker\<close>

lemma py_split_nonempty: "py_split sep acc s \<noteq> []"
  by (induction sep acc s rule: py_split.induct) auto

lemma py_split_absent: "\<not> sublist sep s \<Longrightarrow> py_split sep acc s = [acc @ s]"
proof (induction sep acc s rule: py_split.induct)
  case (1 sep acc)
  then show ?case by simp
next
  case (2 sep acc c cs)
  have np: "\<not> prefix sep (c # cs)"
    using 2(3) prefix_imp_sublist by blast
  have ns: "\<not> sublist sep cs"
    using 2(3) by (meson sublist_Cons_right)
  show ?case using np ns 2(2) by simp
qed

lemma unbordered_no_overlap:
  assumes u: "unbordered sep" and p: "prefix sep (pre @ sep @ post)" and ne: "pre \<noteq> []"
  shows "length sep \<le> length pre"
proof (rule ccontr)
  assume "\<not> length sep \<le> length pre"
  then have lt: "length pre < length sep" by simp
  define k where "k = length sep - length pre"
  have lp: "0 < length pre" using ne by simp
  have k: "0 < k" "k < length sep" unfolding k_def using lt lp by arith+
  from p obtain r where r: "pre @ sep @ post = sep @ r" by (auto simp: prefix_def)
  have "take (length sep) (pre @ sep @ post) = sep" using r by simp
  then have "pre @ take k sep = sep" using lt by (simp add: k_def)
  then have "drop (length pre) sep = take k sep"
    by (metis append_eq_conv_conj)
  then have "take k sep = drop (length sep - k) sep" using lt by (simp add: k_def)
  moreover have "k \<in> set [1..<length sep]" using k by simp
  ultimately show False using u unfolding unbordered_def list_all_iff by blast
qed

lemma py_split_last:
  assumes u: "unbordered sep" and ne: "sep \<noteq> []" and ns: "\<not> sublist sep post"
  shows "last (py_split sep acc (pre @ sep @ post)) = post"
proof (induction "length pre" arbitrary: pre acc rule: less_induct)
  case less
  show ?case
  proof (cases pre)
    case Nil
    obtain c cs where sc: "sep = c # cs" using ne by (cases sep) auto
    have "py_split sep acc (sep @ post) = acc # py_split sep [] post"
      by (simp add: sc)
    then show ?thesis using Nil py_split_absent[OF ns, of "[]"] by simp
  next
    case (Cons c pre')
    show ?thesis
    proof (cases "prefix sep (pre @ sep @ post)")
      case True
      have le: "length sep \<le> length pre"
        using unbordered_no_overlap[OF u True] Cons by simp
      have d: "drop (length sep - 1) (pre' @ sep @ post) = drop (length sep - 1) pre' @ sep @ post"
        using le Cons by simp
      have "length (drop (length sep - 1) pre') < length pre" using Cons by simp
      from less[OF this] have ih: "last (py_split sep [] (drop (length sep - 1) pre' @ sep @ post)) = post" .
      have "py_split sep acc (pre @ sep @ post) = acc # py_split sep [] (drop (length sep - 1) (pre' @ sep @ post))"
        using True ne Cons by simp
      then show ?thesis using ih d py_split_nonempty by simp
    next
      case False
      have "py_split sep acc (pre @ sep @ post) = py_split sep (acc @ [c]) (pre' @ sep @ post)"
        using False Cons by simp
      moreover have "length pre' < length pre" using Cons by simp
      ultimately show ?thesis using less by simp
    qed
  qed
qed

lemma unbordered_marker: "unbordered ''ANALYSIS:''"
  by (simp add: unbordered_def upt_rec)

lemma py_join_snoc:
  "xs \<noteq> [] \<Longrightarrow> py_join sep xs = concat (map (\<lambda>x. x @ sep) (butlast xs)) @ last xs"
  by (induction sep xs rule: py_join.induct) auto

subsection \<open>\<^verbatim>\<open>generate_analysis\<close>\<close>

lemma gen_ready:
  assumes "gen_initialized s \<or> load_llm B = None"
  shows "\<exists>s1. (if \<not> gen_initialized s then GenerationService_initialize B s else (Inr (), s)) = (Inr (), s1)
     \<and> generate_calls s1 = generate_calls s"
  using assms
  by (auto simp: GenerationService_initialize_def gen_init_resume_def gen_init_begin_def emit_def generate_calls_def)

lemma generate_analysis_nonempty:
  assumes "retrieved \<noteq> []" and "gen_initialized s \<or> load_llm B = None"
    and "llm_generate B (build_prompt q retrieved) = Inr raw"
  shows "fst (generate_analysis B s q retrieved) = Inr (extract_analysis raw)"
proof -
  from gen_ready[OF assms(2)] obtain s1 where
    s1: "(if \<not> gen_initialized s then GenerationService_initialize B s else (Inr (), s)) = (Inr (), s1)"
    by blast
  show ?thesis
    unfolding generate_analysis_def s1 using assms(1,3) by (simp add: Let_def)
qed

lemma generate_analysis_sends_prompt:
  assumes "retrieved \<noteq> []" and "gen_initialized s \<or> load_llm B = None"
  shows "generate_calls (snd (generate_analysis B s q retrieved))
           = generate_calls s @ [LLMGenerate (build_prompt q retrieved)]"
proof -
  from gen_ready[OF assms(2)] obtain s1 where
    s1: "(if \<not> gen_initialized s then GenerationService_initialize B s else (Inr (), s)) = (Inr (), s1)"
    and g: "generate_calls s1 = generate_calls s" by blast
  show ?thesis
    unfolding generate_analysis_def s1 using assms(1) g
    by (simp add: Let_def emit_def generate_calls_def split: sum.splits)
qed

text \<open>
  C4, as the code has it. \<^verbatim>\<open>generate_analysis\<close> tests the initialisation flag before it
  tests the clause list. With an empty clause list it never calls the generation model.
  On an initialised service it returns the fixed message and leaves the state untouched.
  On an uninitialised service it first runs \<^verbatim>\<open>initialize\<close>: the model is loaded and
  the two log lines are written, then the fixed message is returned; when the load raises,
  the exception is what the caller gets.
\<close>

theorem analyze_empty_clauses:
  "(gen_initialized s \<longrightarrow> generate_analysis B s q [] = (Inr no_clauses_message, s))
   \<and> (\<not> gen_initialized s \<and> load_llm B = None \<longrightarrow>
        fst (generate_analysis B s q []) = Inr no_clauses_message
        \<and> trace (snd (generate_analysis B s q []))
            = trace s @ [LogInfo ''Initializing LLM for generation'', LoadLLM,
                         LogInfo ''LLM initialized successfully''])
   \<and> (\<forall>e. \<not> gen_initialized s \<and> load_llm B = Some e \<longrightarrow> fst (generate_analysis B s q []) = Inl e)
   \<and> generate_calls (snd (generate_analysis B s q [])) = generate_calls s"
  by (auto simp: generate_analysis_def GenerationService_initialize_def gen_init_resume_def
      gen_init_begin_def emit_def generate_calls_def split: option.splits)

theorem analyze_empty_clauses_witness:
  "generate_analysis (stub_backends None no_hits (Inr '''')) warm hail_claim [] = (Inr no_clauses_message, warm)
   \<and> fst (generate_analysis (stub_backends None no_hits (Inr '''')) cold hail_claim []) = Inr no_clauses_message
   \<and> fst (generate_analysis (stub_backends (Some (BackendError ''model not found'')) no_hits (Inr '''')) cold hail_claim [])
       = Inl (BackendError ''model not found'')
   \<and> generate_calls (snd (generate_analysis (stub_backends None no_hits (Inr '''')) cold hail_claim [])) = []"
proof -
  have w: "gen_initialized warm" and c: "\<not> gen_initialized cold" and g: "generate_calls cold = []"
    by (simp_all add: warm_def cold_def generate_calls_def)
  have l: "load_llm (stub_backends None no_hits (Inr '''')) = None"
    and f: "load_llm (stub_backends (Some (BackendError ''model not found'')) no_hits (Inr '''')) = Some (BackendError ''model not found'')"
    by (simp_all add: stub_backends_def)
  show ?thesis
    using analyze_empty_clauses[of warm "stub_backends None no_hits (Inr '''')" hail_claim]
      analyze_empty_clauses[of cold "stub_backends None no_hits (Inr '''')" hail_claim]
      analyze_empty_clauses[of cold "stub_backends (Some (BackendError ''model not found'')) no_hits (Inr '''')" hail_claim]
      w c g l f
    by simp
qed

text \<open>
  C4 as stated fails: on an uninitialised service a call with an empty clause list loads
  the language model.
\<close>

theorem analyze_empty_loads_model_counterexample:
  "LoadLLM \<in> set (trace (snd (generate_analysis (stub_backends None no_hits (Inr '''')) cold hail_claim [])))"
  by (simp add: generate_analysis_def GenerationService_initialize_def gen_init_resume_def
      gen_init_begin_def emit_def cold_def stub_backends_def)

text \<open>
  C8, as the code has it. For a non-empty clause list on a service that is or can be
  initialised, exactly one generation call is made, with a prompt that is a function of
  the query and the clauses alone: the fixed preamble ending in the instruction to state
  whether the claim is likely covered and to cite the clause ID, then the clauses in the
  given order, one bullet line \<^verbatim>\<open>- [id] text\<close> each, then the query, then the answer
  marker.
\<close>

theorem analyze_prompt_layout:
  assumes "retrieved \<noteq> []" and "gen_initialized s \<or> load_llm B = None"
  shows "generate_calls (snd (generate_analysis B s q retrieved))
           = generate_calls s @ [LLMGenerate (build_prompt q retrieved)]
       \<and> build_prompt q retrieved =
           ''Instruct: You are an expert Insurance Policy Analyst. Based on the following policy clauses, analyze the user''
           @ [CHR 0x27] @ ''s claim description. '' @ instruction
           @ ''\<newline>\<newline>POLICY CLAUSES:\<newline>''
           @ concat (map (\<lambda>c. ''- ['' @ clause_id c @ ''] '' @ clause_text c @ ''\<newline>'')
                         (butlast retrieved))
           @ ''- ['' @ clause_id (last retrieved) @ ''] '' @ clause_text (last retrieved)
           @ ''\<newline>\<newline>USER CLAIM: '' @ q @ ''\<newline>\<newline>'' @ answer_marker"
proof
  show "generate_calls (snd (generate_analysis B s q retrieved))
           = generate_calls s @ [LLMGenerate (build_prompt q retrieved)]"
    by (rule generate_analysis_sends_prompt[OF assms])
next
  have m: "map bullet retrieved \<noteq> []" using assms(1) by simp
  have "py_join ''\<newline>'' (map bullet retrieved)
          = concat (map (\<lambda>c. ''- ['' @ clause_id c @ ''] '' @ clause_text c @ ''\<newline>'')
                         (butlast retrieved))
            @ ''- ['' @ clause_id (last retrieved) @ ''] '' @ clause_text (last retrieved)"
    using assms(1)
    by (simp add: py_join_snoc[OF m] map_butlast[symmetric] last_map bullet_def comp_def)
  then show "build_prompt q retrieved =
           ''Instruct: You are an expert Insurance Policy Analyst. Based on the following policy clauses, analyze the user''
           @ [CHR 0x27] @ ''s claim description. '' @ instruction
           @ ''\<newline>\<newline>POLICY CLAUSES:\<newline>''
           @ concat (map (\<lambda>c. ''- ['' @ clause_id c @ ''] '' @ clause_text c @ ''\<newline>'')
                         (butlast retrieved))
           @ ''- ['' @ clause_id (last retrieved) @ ''] '' @ clause_text (last retrieved)
           @ ''\<newline>\<newline>USER CLAIM: '' @ q @ ''\<newline>\<newline>'' @ answer_marker"
    by (simp add: build_prompt_def instruction_def answer_marker_def)
qed

theorem analyze_prompt_layout_witness:
  "[clause_001] \<noteq> [] \<and> (gen_initialized warm \<or> load_llm (stub_backends None no_hits (Inr '''')) = None)
   \<and> generate_calls (snd (generate_analysis (stub_backends None no_hits (Inr '''')) warm hail_claim [clause_001]))
      = [LLMGenerate (''Instruct: You are an expert Insurance Policy Analyst. Based on the following policy clauses, analyze the user''
           @ [CHR 0x27] @ ''s claim description. State if it is likely covered and cite the clause ID.''
           @ ''\<newline>\<newline>POLICY CLAUSES:\<newline>- [CLAUSE_001] Collision damage is covered.''
           @ ''\<newline>\<newline>USER CLAIM: Windshield cracked by hail\<newline>\<newline>ANALYSIS:'')]"
proof -
  have h1: "[clause_001] \<noteq> []" by simp
  have h2: "gen_initialized warm \<or> load_llm (stub_backends None no_hits (Inr '''')) = None"
    by (simp add: warm_def)
  have g: "generate_calls warm = []" by (simp add: generate_calls_def warm_def)
  show ?thesis
    using analyze_prompt_layout[OF h1 h2, of hail_claim] h2 g
    by (simp add: instruction_def answer_marker_def clause_001_def hail_claim_def)
qed

text \<open>
  C8 as stated fails: the instruction does not follow the query. In the prompt for one
  clause and the query \<open>hail_claim\<close>, no occurrence of the query has the instruction
  anywhere after it.
\<close>

theorem prompt_instruction_after_query_counterexample:
  "\<not> followed_by hail_claim instruction (build_prompt hail_claim [clause_001])"
proof
  assume "followed_by hail_claim instruction (build_prompt hail_claim [clause_001])"
  then obtain a b c where
    d: "build_prompt hail_claim [clause_001] = a @ hail_claim @ b @ instruction @ c"
    unfolding followed_by_def by blast
  define U where "U = ''Instruct: You are an expert Insurance Policy Analyst. ''
         @ ''Based on the following policy clauses, analyze the user'' @ [CHR 0x27]
         @ ''s claim description. ''
         @ ''State if it is likely covered and cite the clause ID.\<newline>\<newline>''
         @ ''POLICY CLAUSES:\<newline>- [CLAUSE_001] Collision damage is covered.\<newline>\<newline>''
         @ ''USER CLAIM: ''"
  define V where "V = ''indshield cracked by hail\<newline>\<newline>ANALYSIS:''"
  define V' where "V' = ''indshield cracked by hail'' @ b @ instruction @ c"
  have l: "build_prompt hail_claim [clause_001] = U @ CHR ''W'' # V"
    by (simp add: build_prompt_def hail_claim_def clause_001_def bullet_def U_def V_def)
  have r: "a @ hail_claim @ b @ instruction @ c = a @ CHR ''W'' # V'"
    by (simp add: hail_claim_def V'_def)
  have nU: "CHR ''W'' \<notin> set U" by (simp add: U_def)
  have nV: "CHR ''W'' \<notin> set V" by (simp add: V_def)
  have "U @ CHR ''W'' # V = a @ CHR ''W'' # V'" using d l r by simp
  then have "V = V'" using append_Cons_eq_iff[OF nU nV] by blast
  then have "CHR ''t'' \<in> set V" by (simp add: V'_def instruction_def)
  then show False by (simp add: V_def)
qed

text \<open>
  C9, as the code has it. When the generation call returns \<open>raw\<close>, the analysis is the
  text after the last occurrence of the answer marker in \<open>raw\<close> with leading and trailing
  whitespace removed; when the marker does not occur, it is \<open>raw\<close> with leading and
  trailing whitespace removed. Neither case raises.
\<close>

theorem analyze_returns_stripped_text_after_last_marker:
  assumes "retrieved \<noteq> []" and "gen_initialized s \<or> load_llm B = None"
    and "llm_generate B (build_prompt q retrieved) = Inr raw"
  shows "(\<not> sublist answer_marker raw \<longrightarrow>
            fst (generate_analysis B s q retrieved) = Inr (py_strip raw))
       \<and> (\<forall>pre post. raw = pre @ answer_marker @ post \<and> \<not> sublist answer_marker post \<longrightarrow>
            fst (generate_analysis B s q retrieved) = Inr (py_strip post))"
proof (intro conjI impI allI)
  assume "\<not> sublist answer_marker raw"
  then have "py_split ''ANALYSIS:'' [] raw = [raw]"
    using py_split_absent[of "''ANALYSIS:''" raw "[]"] by (simp add: answer_marker_def)
  then show "fst (generate_analysis B s q retrieved) = Inr (py_strip raw)"
    using generate_analysis_nonempty[OF assms] by (simp add: extract_analysis_def)
next
  fix pre post
  assume a: "raw = pre @ answer_marker @ post \<and> \<not> sublist answer_marker post"
  then have "last (py_split ''ANALYSIS:'' [] raw) = post"
    using py_split_last[OF unbordered_marker, of post "[]" pre] by (simp add: answer_marker_def)
  then show "fst (generate_analysis B s q retrieved) = Inr (py_strip post)"
    using generate_analysis_nonempty[OF assms] by (simp add: extract_analysis_def)
qed

theorem analyze_returns_stripped_text_after_last_marker_witness:
  "[clause_001] \<noteq> [] \<and> gen_initialized warm
   \<and> llm_generate (stub_backends None no_hits (Inr ''USER CLAIM: x ANALYSIS: Likely covered. ''))
        (build_prompt hail_claim [clause_001]) = Inr ''USER CLAIM: x ANALYSIS: Likely covered. ''
   \<and> \<not> sublist answer_marker '' Likely covered. ''
   \<and> fst (generate_analysis (stub_backends None no_hits (Inr ''USER CLAIM: x ANALYSIS: Likely covered. ''))
             warm hail_claim [clause_001]) = Inr ''Likely covered.''"
proof -
  let ?B = "stub_backends None no_hits (Inr ''USER CLAIM: x ANALYSIS: Likely covered. '')"
  have h1: "[clause_001] \<noteq> []" by simp
  have h2: "gen_initialized warm \<or> load_llm ?B = None" by (simp add: warm_def)
  have h3: "llm_generate ?B (build_prompt hail_claim [clause_001]) = Inr ''USER CLAIM: x ANALYSIS: Likely covered. ''"
    by (simp add: stub_backends_def)
  have n: "\<not> sublist answer_marker '' Likely covered. ''"
    by (simp add: answer_marker_def sublist_code)
  have e: "''USER CLAIM: x ANALYSIS: Likely covered. '' = ''USER CLAIM: x '' @ answer_marker @ '' Likely covered. ''"
    by (simp add: answer_marker_def)
  have "fst (generate_analysis ?B warm hail_claim [clause_001]) = Inr (py_strip '' Likely covered. '')"
    using analyze_returns_stripped_text_after_last_marker[OF h1 h2 h3] e n by blast
  then show ?thesis using h3 n by (simp add: py_strip_def py_isspace_def warm_def)
qed

text \<open>
  C9 as stated fails: a raw output without the marker that begins and ends with a blank
  is not returned verbatim.
\<close>

theorem analyze_verbatim_counterexample:
  "\<not> sublist answer_marker '' Likely covered. ''
   \<and> fst (generate_analysis (stub_backends None no_hits (Inr '' Likely covered. ''))
             warm hail_claim [clause_001]) = Inr ''Likely covered.''
   \<and> ''Likely covered.'' \<noteq> '' Likely covered. ''"
  by (simp add: answer_marker_def sublist_code generate_analysis_def warm_def stub_backends_def
      clause_001_def extract_analysis_def py_strip_def py_isspace_def Let_def)

subsection \<open>\<^verbatim>\<open>encode\<close> and \<^verbatim>\<open>encode_single\<close>\<close>

lemma emb_ready:
  assumes "emb_initialized s \<or> load_embedder B = None"
  shows "\<exists>s1. (if \<not> emb_initialized s then EmbeddingService_initialize B s else (Inr (), s)) = (Inr (), s1)"
  using assms
  by (auto simp: EmbeddingService_initialize_def emb_init_resume_def)

lemma encode_single_ok:
  assumes "emb_initialized s \<or> load_embedder B = None" and "model_encode B [text] = Inr embeddings"
  shows "\<exists>s'. encode_single B s text = (Inr (if embeddings \<noteq> [] then hd embeddings else []), s')"
proof -
  from emb_ready[OF assms(1)] obtain s1 where
    s1: "(if \<not> emb_initialized s then EmbeddingService_initialize B s else (Inr (), s)) = (Inr (), s1)"
    by blast
  show ?thesis unfolding encode_single_def encode_def s1 using assms(2) by (simp add: Let_def)
qed

text \<open>
  C10, as the code has it. \<^verbatim>\<open>encode\<close> tests the initialisation flag before it tests
  the list of texts. With an empty list it never calls the model's \<^verbatim>\<open>encode\<close>. On an
  initialised service it returns the empty list and leaves the state untouched. On an
  uninitialised service it first runs \<^verbatim>\<open>initialize\<close>: the model is constructed and the
  two log lines are written, then the empty list is returned; when the load raises, the
  exception is what the caller gets. When the batch \<^verbatim>\<open>encode\<close> of a single text yields
  no embeddings, \<^verbatim>\<open>encode_single\<close> returns the empty vector instead of raising an index
  error.
\<close>

theorem encode_empty_texts:
  "(emb_initialized s \<longrightarrow> encode B s [] = (Inr [], s))
   \<and> (\<not> emb_initialized s \<and> load_embedder B = None \<longrightarrow>
        fst (encode B s []) = Inr []
        \<and> trace (snd (encode B s []))
            = trace s @ [LogInfo ''Initializing embedding model'', LoadEmbedder,
                         LogInfo ''Embedding model initialized successfully''])
   \<and> (\<forall>e. \<not> emb_initialized s \<and> load_embedder B = Some e \<longrightarrow> fst (encode B s []) = Inl e)
   \<and> encode_calls (snd (encode B s [])) = encode_calls s
   \<and> (fst (encode B s [text]) = Inr [] \<longrightarrow> fst (encode_single B s text) = Inr [])"
  by (auto simp: encode_def encode_single_def EmbeddingService_initialize_def emb_init_resume_def
      emb_init_begin_def emit_def encode_calls_def split: option.splits prod.splits sum.splits)

theorem encode_empty_texts_witness:
  "encode silent_model warm [] = (Inr [], warm)
   \<and> fst (encode silent_model cold []) = Inr []
   \<and> trace (snd (encode silent_model cold []))
       = [LogInfo ''Initializing embedding model'', LoadEmbedder,
          LogInfo ''Embedding model initialized successfully'']
   \<and> fst (encode (stub_backends (Some (BackendError ''model not found'')) no_hits (Inr '''')) cold [])
       = Inl (BackendError ''model not found'')
   \<and> encode_calls (snd (encode silent_model cold [])) = []
   \<and> fst (encode silent_model warm [hail_claim]) = Inr []
   \<and> fst (encode_single silent_model warm hail_claim) = Inr []"
proof -
  have a: "load_embedder silent_model = None" by (simp add: silent_model_def stub_backends_def)
  have f: "load_embedder (stub_backends (Some (BackendError ''model not found'')) no_hits (Inr ''''))
             = Some (BackendError ''model not found'')"
    by (simp add: stub_backends_def)
  have w: "emb_initialized warm" and c: "\<not> emb_initialized cold"
    and t: "trace cold = []" and g: "encode_calls cold = []"
    by (simp_all add: warm_def cold_def encode_calls_def)
  have e: "fst (encode silent_model warm [hail_claim]) = Inr []"
    by (simp add: encode_def warm_def silent_model_def stub_backends_def Let_def)
  show ?thesis
    using encode_empty_texts[of warm silent_model hail_claim]
      encode_empty_texts[of cold silent_model hail_claim]
      encode_empty_texts[of cold "stub_backends (Some (BackendError ''model not found'')) no_hits (Inr '''')" hail_claim]
      a f w c t g e
    by simp
qed

text \<open>
  C10 as stated fails: on an uninitialised service a call with an empty list of texts
  constructs the embedding model, and when that load raises no list is returned.
\<close>

theorem encode_empty_loads_model_counterexample:
  "LoadEmbedder \<in> set (trace (snd (encode silent_model cold [])))
   \<and> fst (encode (stub_backends (Some (BackendError ''model not found'')) no_hits (Inr '''')) cold [])
       = Inl (BackendError ''model not found'')"
  by (simp add: encode_def EmbeddingService_initialize_def emb_init_resume_def emb_init_begin_def
      emit_def cold_def silent_model_def stub_backends_def)

subsection \<open>\<^verbatim>\<open>search\<close>\<close>

lemma vs_ready:
  assumes "vs_initialized s \<or>
        (open_client B = None \<and> (get_collection B = None \<or> create_collection B = None))"
  shows "\<exists>s1. (if \<not> vs_initialized s then VectorStoreService_initialize B s else (Inr (), s)) = (Inr (), s1)
     \<and> emb_initialized s1 = emb_initialized s"
  using assms
  by (auto simp: VectorStoreService_initialize_def vs_init_finish_def emit_def Let_def
      split: option.splits)

lemma index2_hd: "xss \<noteq> [] \<Longrightarrow> i < length (hd xss) \<Longrightarrow> index2 xss i = Some (hd xss ! i)"
  by (cases xss) (auto simp: index2_def)

lemma raw_results_length: "aligned r \<Longrightarrow> has_hits r \<Longrightarrow> length (raw_results r) = length (hd (ids r))"
  by (simp add: raw_results_def aligned_def)

lemma raw_results_nth:
  "aligned r \<Longrightarrow> has_hits r \<Longrightarrow> i < length (hd (ids r)) \<Longrightarrow>
   raw_results r ! i = (hd (ids r) ! i, hd (documents r) ! i, hd (metadatas r) ! i, hd (distances r) ! i)"
  by (simp add: raw_results_def aligned_def)

lemma format_loop_aligned:
  assumes a: "aligned r" and h: "has_hits r"
  shows "\<forall>i\<in>set js. i < length (hd (ids r)) \<Longrightarrow>
     fst (format_loop r m js acc s)
       = Inr (acc @ map to_scored (filter (\<lambda>x. m \<le> 1 - raw_distance x) (map (\<lambda>i. raw_results r ! i) js)))"
proof (induction js arbitrary: acc s)
  case Nil
  then show ?case by simp
next
  case (Cons i js)
  have i: "i < length (hd (ids r))" using Cons.prems by simp
  have ne: "ids r \<noteq> []" "distances r \<noteq> []" "documents r \<noteq> []" "metadatas r \<noteq> []"
    using a h by (auto simp: aligned_def has_hits_def)
  have len: "i < length (hd (distances r))" "i < length (hd (documents r))" "i < length (hd (metadatas r))"
    using a h i by (auto simp: aligned_def)
  have ix: "index2 (ids r) i = Some (hd (ids r) ! i)"
    "index2 (distances r) i = Some (hd (distances r) ! i)"
    "index2 (documents r) i = Some (hd (documents r) ! i)"
    "index2 (metadatas r) i = Some (hd (metadatas r) ! i)"
    using ne i len by (simp_all add: index2_hd)
  have rest: "\<forall>j\<in>set js. j < length (hd (ids r))" using Cons.prems by simp
  show ?case
    using Cons.IH[OF rest] ix raw_results_nth[OF a h i]
    by (simp add: Let_def raw_distance_def to_scored_def)
qed

lemma format_loop_all:
  assumes a: "aligned r" and h: "has_hits r"
  shows "fst (format_loop r m [0..<length (hd (ids r))] [] s)
       = Inr (map to_scored (filter (\<lambda>x. m \<le> 1 - raw_distance x) (raw_results r)))"
proof -
  have "map (\<lambda>i. raw_results r ! i) [0..<length (hd (ids r))] = raw_results r"
    using raw_results_length[OF a h] map_nth[of "raw_results r"] by simp
  then show ?thesis using format_loop_aligned[OF a h, of "[0..<length (hd (ids r))]" m "[]" s] by simp
qed

lemma search_no_hits:
  assumes r: "stores_ready B s" and q: "index_answers B q k answer" and n: "\<not> has_hits answer"
  shows "fst (search B s q k m) = Inr []"
proof -
  from r vs_ready[of s B] obtain s1 where
    s1: "(if \<not> vs_initialized s then VectorStoreService_initialize B s else (Inr (), s)) = (Inr (), s1)"
    and e1: "emb_initialized s1 = emb_initialized s" unfolding stores_ready_def by blast
  from q obtain embeddings where
    me: "model_encode B [q] = Inr embeddings"
    and cq: "collection_query B (if embeddings \<noteq> [] then hd embeddings else []) k = Inr answer"
    unfolding index_answers_def by (auto split: sum.splits)
  have "emb_initialized (emit (LogInfo ''Searching vector store'') s1) \<or> load_embedder B = None"
    using r e1 by (simp add: stores_ready_def emit_def)
  from encode_single_ok[OF this me] obtain s2 where
    s2: "encode_single B (emit (LogInfo ''Searching vector store'') s1) q
           = (Inr (if embeddings \<noteq> [] then hd embeddings else []), s2)" by blast
  show ?thesis unfolding search_def s1 using s2 cq n by (simp add: Let_def)
qed

lemma search_hits:
  assumes r: "stores_ready B s" and q: "index_answers B q k answer"
    and a: "aligned answer" and h: "has_hits answer"
  shows "fst (search B s q k m)
     = Inr (map to_scored (filter (\<lambda>x. m \<le> 1 - raw_distance x) (raw_results answer)))"
proof -
  from r vs_ready[of s B] obtain s1 where
    s1: "(if \<not> vs_initialized s then VectorStoreService_initialize B s else (Inr (), s)) = (Inr (), s1)"
    and e1: "emb_initialized s1 = emb_initialized s" unfolding stores_ready_def by blast
  from q obtain embeddings where
    me: "model_encode B [q] = Inr embeddings"
    and cq: "collection_query B (if embeddings \<noteq> [] then hd embeddings else []) k = Inr answer"
    unfolding index_answers_def by (auto split: sum.splits)
  have "emb_initialized (emit (LogInfo ''Searching vector store'') s1) \<or> load_embedder B = None"
    using r e1 by (simp add: stores_ready_def emit_def)
  from encode_single_ok[OF this me] obtain s2 where
    s2: "encode_single B (emit (LogInfo ''Searching vector store'') s1) q
           = (Inr (if embeddings \<noteq> [] then hd embeddings else []), s2)" by blast
  define s3 where "s3 = emit (CollectionQuery (if embeddings \<noteq> [] then hd embeddings else []) k) s2"
  define out where "out = map to_scored (filter (\<lambda>x. m \<le> 1 - raw_distance x) (raw_results answer))"
  obtain s4 where s4: "format_loop answer m [0..<length (hd (ids answer))] [] s3 = (Inr out, s4)"
    using format_loop_all[OF a h, of m s3] unfolding out_def by (metis prod.collapse)
  have d0: "index2 (distances answer) 0 = Some (hd (distances answer) ! 0)"
    using a h by (intro index2_hd) (auto simp: aligned_def has_hits_def)
  show ?thesis unfolding search_def s1 out_def[symmetric]
    using s2 cq h s4 d0 by (simp add: Let_def s3_def)
qed

lemma search_result:
  assumes r: "stores_ready B s" and q: "index_answers B q k answer" and a: "aligned answer"
  shows "fst (search B s q k m)
     = Inr (map to_scored (filter (\<lambda>x. m \<le> 1 - raw_distance x) (raw_results answer)))"
proof (cases "has_hits answer")
  case True
  then show ?thesis by (rule search_hits[OF r q a])
next
  case False
  then show ?thesis using search_no_hits[OF r q False] by (simp add: raw_results_def)
qed

lemma sorted_scores:
  assumes "sorted (map raw_distance xs)"
  shows "sorted_wrt (\<lambda>a b. snd a \<ge> snd b) (map to_scored (filter P xs))"
proof -
  have "sorted_wrt (\<lambda>a b. raw_distance a \<le> raw_distance b) xs"
    using assms by (simp add: sorted_map)
  then have "sorted_wrt (\<lambda>a b. raw_distance a \<le> raw_distance b) (filter P xs)"
    by (rule sorted_wrt_filter)
  then show ?thesis
    by (simp add: sorted_wrt_map to_scored_def raw_distance_def split_beta)
qed

text \<open>
  C1. When both stores are or can be brought up and the index answers the query, the
  result of \<^verbatim>\<open>search\<close> is the raw results in their order, each turned into a clause
  with score \<open>1 - distance\<close> (the same number in the tuple and in
  \<^verbatim>\<open>relevance_score\<close>), with every result whose score is strictly below the threshold
  left out and none clamped; so every returned score is at least the threshold.
\<close>

theorem search_scores_and_filters:
  assumes "stores_ready B s" and "index_answers B q k answer" and "aligned answer"
  shows "fst (search B s q k m)
           = Inr (map to_scored (filter (\<lambda>x. \<not> 1 - raw_distance x < m) (raw_results answer)))
       \<and> (\<forall>x\<in>set (raw_results answer).
             snd (to_scored x) = 1 - raw_distance x
           \<and> relevance_score (fst (to_scored x)) = 1 - raw_distance x)
       \<and> (case fst (search B s q k m) of
             Inl _ \<Rightarrow> False
           | Inr out \<Rightarrow> \<forall>(c, score)\<in>set out. score \<ge> m)"
proof -
  have e: "(\<lambda>x. \<not> 1 - raw_distance x < m) = (\<lambda>x. m \<le> 1 - raw_distance x)"
    by (auto simp: fun_eq_iff)
  have r: "fst (search B s q k m)
           = Inr (map to_scored (filter (\<lambda>x. m \<le> 1 - raw_distance x) (raw_results answer)))"
    by (rule search_result[OF assms])
  show ?thesis unfolding e r
    by (auto simp: to_scored_def raw_distance_def split_beta)
qed

text \<open>
  C5. The result of \<^verbatim>\<open>search\<close> is a subsequence of the scored raw results, in their
  order; when the raw results come by ascending distance, the result is sorted by
  descending score, equal scores staying in raw order.
\<close>

theorem search_preserves_raw_order:
  assumes "stores_ready B s" and "index_answers B q k answer" and "aligned answer"
  shows "case fst (search B s q k m) of
           Inl _ \<Rightarrow> False
         | Inr out \<Rightarrow>
             subseq out (map to_scored (raw_results answer))
           \<and> (sorted (map raw_distance (raw_results answer))
                \<longrightarrow> sorted_wrt (\<lambda>a b. snd a \<ge> snd b) out)"
  unfolding search_result[OF assms]
  by (simp add: sorted_scores subseq_map)

text \<open>
  C6. With a threshold in \<open>[0, 1]\<close> and every raw distance in \<open>[0, 2]\<close>, every score
  returned by \<^verbatim>\<open>search\<close> lies in \<open>[0, 1]\<close>.
\<close>

theorem search_scores_in_unit_interval:
  assumes "stores_ready B s" and "index_answers B q k answer" and "aligned answer"
    and "0 \<le> m" and "m \<le> 1"
    and "\<forall>x\<in>set (raw_results answer). 0 \<le> raw_distance x \<and> raw_distance x \<le> 2"
  shows "case fst (search B s q k m) of
           Inl _ \<Rightarrow> False
         | Inr out \<Rightarrow>
             \<forall>(c, score)\<in>set out. 0 \<le> score \<and> score \<le> 1
                \<and> 0 \<le> relevance_score c \<and> relevance_score c \<le> 1"
  unfolding search_result[OF assms(1-3)]
  using assms(4-6) by (auto simp: to_scored_def raw_distance_def split_beta)

text \<open>
  C7. When the index answers the query with no hits, as an index without entries does,
  \<^verbatim>\<open>search\<close> returns the empty list and raises nothing.
\<close>

theorem search_empty_index:
  assumes "stores_ready B s" and "index_answers B q k answer" and "\<not> has_hits answer"
  shows "fst (search B s q k m) = Inr []"
  by (rule search_no_hits[OF assms])

lemma three_hits_facts:
  "stores_ready (stub_backends None three_hits (Inr '''')) cold"
  "index_answers (stub_backends None three_hits (Inr '''')) hail_claim 3 three_hits"
  "aligned three_hits"
  by (simp_all add: stores_ready_def index_answers_def aligned_def stub_backends_def three_hits_def
      cold_def has_hits_def)

lemma three_hits_raw:
  "raw_results three_hits =
     [(''A'', ''Collision damage is covered.'',
         [''policy_type'' \<mapsto> ''Auto Insurance'', ''section'' \<mapsto> ''Coverage''], 1/10),
      (''B'', ''Wear and tear is excluded.'', [''section'' \<mapsto> ''Exclusions''], 6/10),
      (''C'', ''Notify the insurer within 30 days.'', Map.empty, 9/10)]"
  by (simp add: raw_results_def three_hits_def has_hits_def)

theorem search_scores_and_filters_witness:
  "stores_ready (stub_backends None three_hits (Inr '''')) cold
   \<and> index_answers (stub_backends None three_hits (Inr '''')) hail_claim 3 three_hits
   \<and> aligned three_hits
   \<and> fst (search (stub_backends None three_hits (Inr '''')) cold hail_claim 3 (1/2))
       = Inr [(\<lparr>clause_id = ''A'', clause_text = ''Collision damage is covered.'',
                policy_type = Some ''Auto Insurance'', section_ = Some ''Coverage'',
                relevance_score = 9/10\<rparr>, 9/10)]"
  using search_scores_and_filters[OF three_hits_facts, where m = "1/2"] three_hits_facts
  by (simp add: three_hits_raw to_scored_def raw_distance_def)

theorem search_preserves_raw_order_witness:
  "stores_ready (stub_backends None three_hits (Inr '''')) cold
   \<and> index_answers (stub_backends None three_hits (Inr '''')) hail_claim 3 three_hits
   \<and> aligned three_hits
   \<and> sorted (map raw_distance (raw_results three_hits))
   \<and> sorted_wrt (\<lambda>a b. snd a \<ge> snd b)
        (projr (fst (search (stub_backends None three_hits (Inr '''')) cold hail_claim 3 (3/10))))
   \<and> map snd (projr (fst (search (stub_backends None three_hits (Inr '''')) cold hail_claim 3 (3/10))))
       = [9/10, 4/10]"
proof -
  let ?r = "fst (search (stub_backends None three_hits (Inr '''')) cold hail_claim 3 (3/10))"
  have s: "sorted (map raw_distance (raw_results three_hits))"
    by (simp add: three_hits_raw raw_distance_def)
  have v: "?r = Inr (map to_scored (filter (\<lambda>x. 3/10 \<le> 1 - raw_distance x) (raw_results three_hits)))"
    by (rule search_result[OF three_hits_facts])
  have m: "map snd (projr ?r) = [9/10, 4/10]"
    unfolding v by (simp add: three_hits_raw to_scored_def raw_distance_def)
  have "sorted_wrt (\<lambda>a b. snd a \<ge> snd b) (projr ?r)"
    using search_preserves_raw_order[OF three_hits_facts, where m = "3/10"] s
    by (cases ?r) simp_all
  then show ?thesis using three_hits_facts s m by simp
qed

theorem search_scores_in_unit_interval_witness:
  "stores_ready (stub_backends None three_hits (Inr '''')) cold
   \<and> index_answers (stub_backends None three_hits (Inr '''')) hail_claim 3 three_hits
   \<and> aligned three_hits \<and> (0::real) \<le> 0 \<and> (0::real) \<le> 1
   \<and> map raw_distance (raw_results three_hits) = [1/10, 6/10, 9/10]
   \<and> list_all (\<lambda>x. 0 \<le> snd x \<and> snd x \<le> 1)
         (projr (fst (search (stub_backends None three_hits (Inr '''')) cold hail_claim 3 0)))
   \<and> map snd (projr (fst (search (stub_backends None three_hits (Inr '''')) cold hail_claim 3 0)))
       = [9/10, 4/10, 1/10]"
proof -
  let ?r = "fst (search (stub_backends None three_hits (Inr '''')) cold hail_claim 3 0)"
  have d: "\<forall>x\<in>set (raw_results three_hits). 0 \<le> raw_distance x \<and> raw_distance x \<le> 2"
    by (simp add: three_hits_raw raw_distance_def)
  have v: "?r = Inr (map to_scored (filter (\<lambda>x. 0 \<le> 1 - raw_distance x) (raw_results three_hits)))"
    by (rule search_result[OF three_hits_facts])
  have l: "map snd (projr ?r) = [9/10, 4/10, 1/10]"
    unfolding v by (simp add: three_hits_raw to_scored_def raw_distance_def)
  have "\<forall>(c, score)\<in>set (projr ?r). 0 \<le> score \<and> score \<le> 1"
    using search_scores_in_unit_interval[OF three_hits_facts _ _ d, where m = 0]
    by (cases ?r) auto
  then have "list_all (\<lambda>x. 0 \<le> snd x \<and> snd x \<le> 1) (projr ?r)"
    by (auto simp: list_all_iff)
  then show ?thesis using three_hits_facts l
    by (simp add: three_hits_raw raw_distance_def)
qed

theorem search_empty_index_witness:
  "stores_ready (stub_backends None no_hits (Inr '''')) cold
   \<and> index_answers (stub_backends None no_hits (Inr '''')) hail_claim 10 no_hits
   \<and> \<not> has_hits no_hits
   \<and> fst (search (stub_backends None no_hits (Inr '''')) cold hail_claim 10 0) = Inr []"
proof -
  have h: "stores_ready (stub_backends None no_hits (Inr '''')) cold"
    "index_answers (stub_backends None no_hits (Inr '''')) hail_claim 10 no_hits"
    "\<not> has_hits no_hits"
    by (simp_all add: stores_ready_def index_answers_def stub_backends_def no_hits_def has_hits_def)
  show ?thesis using search_empty_index[OF h] h by simp
qed

subsection \<open>\<^verbatim>\<open>search_policies\<close>\<close>

lemma vs_init_gen:
  "VectorStoreService_initialize B s = (r, s') \<Longrightarrow> gen_initialized s' = gen_initialized s"
  by (auto simp: VectorStoreService_initialize_def vs_init_finish_def emit_def Let_def
      split: option.splits if_splits)

lemma encode_single_gen:
  "encode_single B s t = (r, s') \<Longrightarrow> gen_initialized s' = gen_initialized s"
  by (auto simp: encode_single_def encode_def EmbeddingService_initialize_def emb_init_resume_def
      emb_init_begin_def emit_def Let_def split: option.splits if_splits prod.splits sum.splits)

lemma format_loop_gen:
  "format_loop r m js acc s = (x, s') \<Longrightarrow> gen_initialized s' = gen_initialized s"
proof (induction js arbitrary: acc s)
  case Nil
  then show ?case by simp
next
  case (Cons i js)
  then show ?case
    by (fastforce simp: Let_def emit_def split: option.splits if_splits)
qed

lemma emit_gen: "gen_initialized (emit e s) = gen_initialized s"
  by (simp add: emit_def)

lemma search_gen:
  assumes "search B s q k m = (r, s')"
  shows "gen_initialized s' = gen_initialized s"
  using assms unfolding search_def
  by (auto simp: Let_def emit_gen split: sum.splits prod.splits if_splits option.splits
      dest!: vs_init_gen encode_single_gen format_loop_gen)

text \<open>
  C2, as the code has it. The handler has one \<^verbatim>\<open>try\<close> block around retrieval and
  generation. When retrieval has produced a non-empty list of valid clauses, generation
  is enabled and the generation call raises \<open>e\<close>, the handler raises
  \<^verbatim>\<open>HTTPException(500)\<close> carrying \<open>e\<close>: no response, and so no retrieval result,
  is returned.
\<close>

theorem generation_failure_fails_request:
  assumes "stores_ready B s"
    and "index_answers B (claim_description req)
           (py_or (max_results req) settings_max_results) answer"
    and "aligned answer"
    and "validate_all (map to_scored
           (filter (\<lambda>x. py_or (min_score req) 0 \<le> 1 - raw_distance x) (raw_results answer)))
         = Inr clauses"
    and "clauses \<noteq> []"
    and "is_enable_rag req = Some True"
    and "gen_initialized s \<or> load_llm B = None"
    and "llm_generate B (build_prompt (claim_description req) clauses) = Inl e"
  shows "fst (search_policies B s req) = Inl (HTTPException 500 e)"
proof -
  let ?s0 = "emit (LogInfo ''Policy search request received'') s"
  let ?k = "py_or (max_results req) settings_max_results"
  let ?m = "py_or (min_score req) 0"
  let ?found = "map to_scored (filter (\<lambda>x. ?m \<le> 1 - raw_distance x) (raw_results answer))"
  have r0: "stores_ready B ?s0" using assms(1) by (simp add: stores_ready_def emit_def)
  obtain s1 where s1: "search B ?s0 (claim_description req) ?k ?m = (Inr ?found, s1)"
    using search_result[OF r0 assms(2,3), of ?m] by (metis prod.collapse)
  have g1: "gen_initialized s1 = gen_initialized s"
    using search_gen[OF s1] by (simp add: emit_def)
  let ?s2 = "emit (LogInfo ''RAG analysis enabled, generating AI response'') s1"
  have "gen_initialized ?s2 \<or> load_llm B = None" using assms(7) g1 by (simp add: emit_def)
  from gen_ready[OF this] obtain s3 where
    s3: "(if \<not> gen_initialized ?s2 then GenerationService_initialize B ?s2 else (Inr (), ?s2)) = (Inr (), s3)"
    by blast
  have ga: "fst (generate_analysis B ?s2 (claim_description req) clauses) = Inl e"
    unfolding generate_analysis_def s3 using assms(5,8) by (simp add: Let_def)
  then obtain s4 where s4: "generate_analysis B ?s2 (claim_description req) clauses = (Inl e, s4)"
    by (metis prod.collapse)
  show ?thesis
    unfolding search_policies_def s1 using assms(4,5,6) s4 by (simp add: failed_def)
qed

theorem generation_failure_fails_request_witness:
  "fst (search_policies (stub_backends None three_hits (Inl out_of_memory)) cold rag_request)
     = Inl (HTTPException 500 out_of_memory)"
proof -
  let ?B = "stub_backends None three_hits (Inl out_of_memory)"
  have k: "py_or (max_results rag_request) settings_max_results = 3"
    and m: "py_or (min_score rag_request) 0 = 1/2"
    and q: "claim_description rag_request = hail_claim"
    by (simp_all add: py_or_def rag_request_def)
  have h1: "stores_ready ?B cold"
    by (simp add: stores_ready_def stub_backends_def)
  have h2: "index_answers ?B (claim_description rag_request)
              (py_or (max_results rag_request) settings_max_results) three_hits"
    by (simp add: index_answers_def stub_backends_def)
  have h3: "aligned three_hits"
    by (simp add: aligned_def three_hits_def)
  have h4: "validate_all (map to_scored
           (filter (\<lambda>x. py_or (min_score rag_request) 0 \<le> 1 - raw_distance x) (raw_results three_hits)))
         = Inr [\<lparr>clause_id = ''A'', clause_text = ''Collision damage is covered.'',
                policy_type = Some ''Auto Insurance'', section_ = Some ''Coverage'',
                relevance_score = 9/10\<rparr>]"
    unfolding m by (simp add: three_hits_raw to_scored_def raw_distance_def PolicyClause_def)
  have h5: "[\<lparr>clause_id = ''A'', clause_text = ''Collision damage is covered.'',
                policy_type = Some ''Auto Insurance'', section_ = Some ''Coverage'',
                relevance_score = 9/10\<rparr>] \<noteq> []" by simp
  have h6: "is_enable_rag rag_request = Some True" by (simp add: rag_request_def)
  have h7: "gen_initialized cold \<or> load_llm ?B = None" by (simp add: stub_backends_def)
  have h8: "llm_generate ?B (build_prompt (claim_description rag_request)
               [\<lparr>clause_id = ''A'', clause_text = ''Collision damage is covered.'',
                policy_type = Some ''Auto Insurance'', section_ = Some ''Coverage'',
                relevance_score = 9/10\<rparr>]) = Inl out_of_memory"
    by (simp add: stub_backends_def)
  show ?thesis
    by (rule generation_failure_fails_request[OF h1 h2 h3 h4 h5 h6 h7 h8])
qed

text \<open>
  C2 as stated fails: retrieval returns clause A, generation runs out of memory, and the
  caller receives the error alone.
\<close>

theorem generation_failure_discards_results_counterexample:
  "fst (search (stub_backends None three_hits (Inl out_of_memory))
          (emit (LogInfo ''Policy search request received'') warm) hail_claim 3 (1/2))
     = Inr [(\<lparr>clause_id = ''A'', clause_text = ''Collision damage is covered.'',
                policy_type = Some ''Auto Insurance'', section_ = Some ''Coverage'',
                relevance_score = 9/10\<rparr>, 9/10)]
   \<and> fst (search_policies (stub_backends None three_hits (Inl out_of_memory)) warm rag_request)
     = Inl (HTTPException 500 out_of_memory)"
  by (simp add: search_policies_def search_def encode_single_def encode_def generate_analysis_def
      stub_backends_def warm_def emit_def rag_request_def py_or_def settings_max_results_def
      three_hits_def has_hits_def index2_def Let_def upt_rec PolicyClause_def failed_def
      hail_claim_def)

subsection \<open>Interleaved callers of \<^verbatim>\<open>initialize\<close>\<close>



















end
